theory Spec2Isabelle
  imports Main "HOL-Library.Word" "HOL-Library.Sublist"
begin

section \<open>Strings and request values\<close>

text \<open>
  A JavaScript string is a sequence of UTF-16 code units. \<open>js\<close> writes an ASCII
  literal of the source as such a sequence.
\<close>

type_synonym jschar = "16 word"
type_synonym jsstring = "jschar list"

definition js :: "string \<Rightarrow> jsstring" where
  "js s = map of_char s"

text \<open>
  \<open>Array.prototype.join\<close>: the elements separated by \<open>sep\<close>, the empty string for
  an empty array.
\<close>

fun join :: "jsstring \<Rightarrow> jsstring list \<Rightarrow> jsstring" where
  "join sep [] = []"
| "join sep [x] = x"
| "join sep (x # y # ys) = x @ sep @ join sep (y # ys)"

text \<open>
  The \<open>conversationId\<close> field of a request, as the handlers read it: absent
  (\<open>undefined\<close>), JSON \<open>null\<close>, or a string (the documented type of the field).
\<close>

datatype jsval = JUndefined | JNull | JStr jsstring

text \<open>\<open>ToBoolean\<close> on these values: \<open>undefined\<close>, \<open>null\<close> and the empty string are falsy.\<close>

fun ToBoolean :: "jsval \<Rightarrow> bool" where
  "ToBoolean JUndefined = False"
| "ToBoolean JNull = False"
| "ToBoolean (JStr s) = (s \<noteq> [])"

text \<open>
  The expression \<open>field || 'default'\<close> of the three handlers. A truthy field is a
  string here, so the result is always a string.
\<close>

fun or_default :: "jsval \<Rightarrow> jsstring" where
  "or_default (JStr s) = (if ToBoolean (JStr s) then s else js ''default'')"
| "or_default v = js ''default''"

section \<open>Conversation store\<close>

record turn =
  role :: jsstring
  content :: jsstring
  timestamp :: jsstring

text \<open>
  The module-level \<open>conversationHistory\<close> Map, from conversation identifier to the
  array of turns. The arrays are only mutated inside \<open>addToConversationHistory\<close> and
  every reader uses the array before the next mutation, so the Map is modelled by value.
  The insertion order of the keys, which only \<open>getAllConversationIds\<close> observes, is
  not modelled.
\<close>

type_synonym store = "jsstring \<rightharpoonup> turn list"

definition Map_has :: "store \<Rightarrow> jsstring \<Rightarrow> bool" where
  "Map_has m k = (m k \<noteq> None)"

definition Map_get :: "store \<Rightarrow> jsstring \<Rightarrow> turn list option" where
  "Map_get m k = m k"

definition Map_set :: "store \<Rightarrow> jsstring \<Rightarrow> turn list \<Rightarrow> store" where
  "Map_set m k v = m(k \<mapsto> v)"

definition Map_delete :: "store \<Rightarrow> jsstring \<Rightarrow> store" where
  "Map_delete m k = m(k := None)"

text \<open>
  Every function that touches the store takes it as its last argument and returns it,
  so that what a function leaves unchanged is visible in its result.
  \<open>conversationHistory.get(conversationId) || []\<close>: an array is truthy even when
  empty, so only a missing key gives the fresh empty array.
\<close>

definition getConversationHistory :: "jsstring \<Rightarrow> store \<Rightarrow> turn list \<times> store" where
  "getConversationHistory conversationId s =
     ((case Map_get s conversationId of Some history \<Rightarrow> history | None \<Rightarrow> []), s)"

text \<open>\<open>history.splice(0, history.length - 10)\<close> when \<open>history.length > 10\<close>.\<close>

definition keep_last_10 :: "turn list \<Rightarrow> turn list" where
  "keep_last_10 history =
     (if length history > 10 then drop (length history - 10) history else history)"

text \<open>
  \<open>now\<close> is the value of \<open>new Date().toISOString()\<close> at the call. After the
  \<open>has\<close>/\<open>set\<close> step the key is present; in the source a missing array would
  make \<open>push\<close> throw, and that branch is unreachable (lemma \<open>ensure_present\<close>).
\<close>

definition addToConversationHistory ::
    "jsstring \<Rightarrow> jsstring \<Rightarrow> jsstring \<Rightarrow> jsstring \<Rightarrow> store \<Rightarrow> store" where
  "addToConversationHistory conversationId role' content' now s =
     (let s1 = (if \<not> Map_has s conversationId then Map_set s conversationId [] else s)
      in case Map_get s1 conversationId of
           None \<Rightarrow> s1
         | Some history \<Rightarrow>
             (let pushed = history @ [\<lparr>role = role', content = content', timestamp = now\<rparr>]
              in Map_set s1 conversationId (keep_last_10 pushed)))"

definition clearConversationHistory :: "jsstring \<Rightarrow> store \<Rightarrow> store" where
  "clearConversationHistory conversationId s = Map_delete s conversationId"

text \<open>A mutation of the store, and a run of mutations in order.\<close>

datatype store_op =
    Append jsstring jsstring jsstring jsstring
  | Clear jsstring

fun apply_op :: "store_op \<Rightarrow> store \<Rightarrow> store" where
  "apply_op (Append conversationId r c now) s = addToConversationHistory conversationId r c now s"
| "apply_op (Clear conversationId) s = clearConversationHistory conversationId s"

definition apply_ops :: "store_op list \<Rightarrow> store \<Rightarrow> store" where
  "apply_ops ops s = fold apply_op ops s"

section \<open>Configuration and services\<close>

text \<open>
  The environment variables the module reads at load time. An unset variable reads as
  \<open>undefined\<close>, which a template renders as the text \<open>undefined\<close>; the fields hold
  the rendered text.
\<close>

record config =
  PROJECT_ID :: jsstring
  GEMINI_MODEL :: jsstring
  AGENT_NAME :: jsstring

text \<open>
  The entries of \<open>table_schema.json\<close>, which is not part of the sources: the catalog
  is a parameter of everything that reads \<open>allTableSchemas\<close>.
\<close>

record column =
  name :: jsstring
  type :: jsstring

record table =
  datasetName :: jsstring
  tableName :: jsstring
  schema :: "column list"

datatype js_error = JsError (message: jsstring)

text \<open>
  The request to \<open>ai.models.generateContent\<close>. The SQL call passes a config object
  (the system instruction, with the constants \<open>temperature: 0.2\<close> and
  \<open>maxOutputTokens: 1024\<close>); the narration call passes none.
\<close>

datatype gen_config = SqlConfig (systemInstruction: jsstring)

record gen_request =
  model :: jsstring
  contents :: jsstring
  config :: "gen_config option"

text \<open>
  What the outside world answers during one chat request. \<open>generateContent\<close> gives
  \<open>response.candidates[0].content.parts[0].text\<close> of the reply, or the error thrown
  by the call or by that access; \<open>bigquery_query\<close> gives the rows or the error of the
  warehouse; \<open>now_user\<close> and \<open>now_assistant\<close> are the two readings of the clock;
  \<open>TypeError\<close> is what the engine throws for \<open>req.body.message.text\<close> when the
  body has no \<open>message\<close>. The services are arbitrary functions, so nothing is assumed
  about what they answer. Requests are handled one at a time: no other request touches
  the store while this one waits for a service. \<open>console.log\<close> is not modelled.
\<close>

record 'rows world =
  now_user :: jsstring
  now_assistant :: jsstring
  generateContent :: "gen_request \<Rightarrow> js_error + jsstring"
  bigquery_query :: "jsstring \<Rightarrow> js_error + 'rows"
  JSON_stringify :: "'rows \<Rightarrow> jsstring"
  TypeError :: js_error

section \<open>Prompt builder\<close>

definition systemPrompt :: "config \<Rightarrow> jsstring" where
  "systemPrompt cfg =
     js ''You are a data expert assistant called '' @ AGENT_NAME cfg @
     js ''. Your job is to convert user questions written in natural language into SQL queries for BigQuery. You must follow the rules and use the provided table schemas to generate the SQL queries. You must select the most appropriate table based on the user's question.''"

definition column_line :: "column \<Rightarrow> jsstring" where
  "column_line col = js ''*   '' @ name col @ js '' ('' @ type col @ js '')''"

definition schemaString :: "table \<Rightarrow> jsstring" where
  "schemaString t = join (js ''\<newline>    '') (map column_line (schema t))"

definition qualified_name :: "config \<Rightarrow> table \<Rightarrow> jsstring" where
  "qualified_name cfg t = PROJECT_ID cfg @ js ''.'' @ datasetName t @ js ''.'' @ tableName t"

definition table_block :: "config \<Rightarrow> table \<Rightarrow> jsstring" where
  "table_block cfg t =
     js ''\<newline>    Table: `'' @ qualified_name cfg t @
     js ''`\<newline>\<newline>    Table schema:\<newline>    '' @ schemaString t @
     js ''\<newline>    ''"

definition allSchemasString :: "config \<Rightarrow> table list \<Rightarrow> jsstring" where
  "allSchemasString cfg allTableSchemas =
     join (js ''\<newline>'') (map (table_block cfg) allTableSchemas)"

text \<open>The label \<open>msg.role === 'user' ? 'User' : 'Assistant'\<close> and the line of one turn.\<close>

definition speaker :: "turn \<Rightarrow> jsstring" where
  "speaker msg = (if role msg = js ''user'' then js ''User'' else js ''Assistant'')"

definition turn_line :: "turn \<Rightarrow> jsstring" where
  "turn_line msg = speaker msg @ js '': '' @ content msg"

definition conversationContext :: "turn list \<Rightarrow> jsstring" where
  "conversationContext conversationHistory =
     (if length conversationHistory > 0
      then js ''\<newline>    ### Previous Conversation Context:\<newline>    '' @
           join (js ''\<newline>'') (map turn_line conversationHistory) @
           js ''\<newline>    \<newline>    ---\<newline>    ''
      else [])"

text \<open>
  The constant text of the template that \<open>buildPrompt\<close> returns, cut at its three
  interpolations: before the schemas, between the schemas and the conversation context,
  from the rules to the opening quote of the question, and after the question.
\<close>

definition prompt_head :: jsstring where
  "prompt_head = js (concat
    [''\<newline>'',
     ''    You must use one of the following tables as the data source:\<newline>'',
     ''    ''])"

definition prompt_gap :: jsstring where
  "prompt_gap = js (concat
    [''\<newline>'',
     ''\<newline>'',
     ''    ''])"

definition prompt_rules_and_examples :: jsstring where
  "prompt_rules_and_examples = js (concat
    [''\<newline>'',
     ''\<newline>'',
     ''    ### Rules:\<newline>'',
     ''\<newline>'',
     ''    1. Return only the SQL code, without any explanations or additional text.\<newline>'',
     ''    2. The query must be 100% compatible with BigQuery Standard SQL.\<newline>'',
     ''    3. If the user's question is unclear or lacks context, generate the most generic SQL that still makes sense, selecting the most relevant table.\<newline>'',
     ''    4. Always limit the results to a maximum of 100 rows using `LIMIT 100` if there is no natural filter.\<newline>'',
     ''    5. Always include the fully qualified table name (e.g., `project.dataset.table`) in the FROM clause.\<newline>'',
     ''    6. Consider the conversation context when interpreting the current question. If the user refers to previous results or asks follow-up questions, use that context to build more relevant queries.\<newline>'',
     ''\<newline>'',
     ''    ### Examples:\<newline>'',
     ''\<newline>'',
     ''    #### Example 1 (using monthly_sales):\<newline>'',
     ''\<newline>'',
     ''    **Question:** \"How much did we sell in total last month?\"\<newline>'',
     ''\<newline>'',
     ''    **SQL Answer:**\<newline>'',
     ''\<newline>'',
     ''    ```sql\<newline>'',
     ''    SELECT SUM(total_sale) AS total_sales\<newline>'',
     ''    FROM `project_id.my_dataset.monthly_sales`\<newline>'',
     ''    WHERE EXTRACT(YEAR FROM date) = EXTRACT(YEAR FROM CURRENT_DATE())\<newline>'',
     ''    AND EXTRACT(MONTH FROM date) = EXTRACT(MONTH FROM DATE_SUB(CURRENT_DATE(), INTERVAL 1 MONTH));\<newline>'',
     ''    ```\<newline>'',
     ''\<newline>'',
     ''    ---\<newline>'',
     ''\<newline>'',
     ''    #### Example 2 (using monthly_sales):\<newline>'',
     ''\<newline>'',
     ''    **Question:** \"Show me sales by region for this year.\"\<newline>'',
     ''\<newline>'',
     ''    **SQL Answer:**\<newline>'',
     ''\<newline>'',
     ''    ```sql\<newline>'',
     ''    SELECT region, SUM(total_sale) AS total_sales\<newline>'',
     ''    FROM `project_id.my_dataset.monthly_sales`\<newline>'',
     ''    WHERE EXTRACT(YEAR FROM date) = EXTRACT(YEAR FROM CURRENT_DATE())\<newline>'',
     ''    GROUP BY region;\<newline>'',
     ''    ```\<newline>'',
     ''\<newline>'',
     ''    ---\<newline>'',
     ''\<newline>'',
     ''    #### Example 3 (using customer_data):\<newline>'',
     ''\<newline>'',
     ''    **Question:** \"List all customers registered in 2023.\"\<newline>'',
     ''\<newline>'',
     ''    **SQL Answer:**\<newline>'',
     ''\<newline>'',
     ''    ```sql\<newline>'',
     ''    SELECT customer_id, name, email\<newline>'',
     ''    FROM `project_id.my_dataset.customer_data`\<newline>'',
     ''    WHERE EXTRACT(YEAR FROM registration_date) = 2023\<newline>'',
     ''    LIMIT 100;\<newline>'',
     ''    ```\<newline>'',
     ''\<newline>'',
     ''    ---\<newline>'',
     ''\<newline>'',
     ''    Now, convert the following question into BigQuery SQL following the same format:\<newline>'',
     ''\<newline>'',
     ''    **Question:** \"''])"

definition prompt_tail :: jsstring where
  "prompt_tail = js (concat
    [''\"\<newline>'',
     ''\<newline>'',
     ''    **SQL Answer:**\<newline>''])"

text \<open>
  \<open>buildPrompt\<close> reads the history of the conversation from the store and the
  catalog and project identifier from the module; it writes nothing.
\<close>

definition buildPrompt ::
    "config \<Rightarrow> table list \<Rightarrow> jsstring \<Rightarrow> jsstring \<Rightarrow> store \<Rightarrow> jsstring \<times> store" where
  "buildPrompt cfg allTableSchemas messageText conversationId s =
     (let (conversationHistory, s') = getConversationHistory conversationId s
      in (prompt_head @ allSchemasString cfg allTableSchemas @
          prompt_gap @ conversationContext conversationHistory @
          prompt_rules_and_examples @ messageText @
          prompt_tail, s'))"

section \<open>SQL extraction\<close>

text \<open>
  The regular expression \<open>/```sql\n([\s\S]*?)```/i\<close>. Under the \<open>i\<close> flag two
  code units match when their canonical forms agree. Every pattern character is ASCII,
  and the canonical form of a code unit from 128 on is never ASCII, so comparing
  ASCII-uppercased code units decides the match.
\<close>

definition ascii_upper :: "jschar \<Rightarrow> jschar" where
  "ascii_upper c = (if 0x61 \<le> c \<and> c \<le> 0x7A then c - 0x20 else c)"

definition ci_eq :: "jschar \<Rightarrow> jschar \<Rightarrow> bool" where
  "ci_eq p c = (ascii_upper p = ascii_upper c)"

text \<open>The pattern matches the input at its start, ignoring case.\<close>

fun matches_ci :: "jsstring \<Rightarrow> jsstring \<Rightarrow> bool" where
  "matches_ci [] cs = True"
| "matches_ci (p # ps) [] = False"
| "matches_ci (p # ps) (c # cs) = (ci_eq p c \<and> matches_ci ps cs)"

definition fence :: jsstring where
  "fence = js ''```''"

definition opener :: jsstring where
  "opener = js ''```sql\<newline>''"

text \<open>
  The lazy group \<open>([\s\S]*?)\<close> followed by the closing fence: the shortest text
  after which the fence matches, if there is one.
\<close>

fun lazy_capture :: "jsstring \<Rightarrow> jsstring option" where
  "lazy_capture [] = None"
| "lazy_capture (c # cs) =
     (if matches_ci fence (c # cs) then Some []
      else map_option ((#) c) (lazy_capture cs))"

text \<open>
  \<open>String.prototype.match\<close> without the \<open>g\<close> flag: the leftmost position where
  the whole pattern matches; the result is capture group 1.
\<close>

fun regex_sql_match :: "jsstring \<Rightarrow> jsstring option" where
  "regex_sql_match [] = None"
| "regex_sql_match (c # cs) =
     (case (if matches_ci opener (c # cs)
            then lazy_capture (drop (length opener) (c # cs)) else None) of
        Some g \<Rightarrow> Some g
      | None \<Rightarrow> regex_sql_match cs)"

text \<open>
  \<open>String.prototype.trim\<close> removes WhiteSpace and LineTerminator code points from
  both ends: TAB, LF, VT, FF, CR, SP, NBSP, U+1680, U+2000..U+200A, LS, PS, U+202F,
  U+205F, U+3000 and U+FEFF.
\<close>

definition is_space :: "jschar \<Rightarrow> bool" where
  "is_space c =
     (c = 0x09 \<or> c = 0x0A \<or> c = 0x0B \<or> c = 0x0C \<or> c = 0x0D \<or> c = 0x20 \<or> c = 0xA0 \<or>
      c = 0x1680 \<or> (0x2000 \<le> c \<and> c \<le> 0x200A) \<or> c = 0x2028 \<or> c = 0x2029 \<or>
      c = 0x202F \<or> c = 0x205F \<or> c = 0x3000 \<or> c = 0xFEFF)"

definition trim :: "jsstring \<Rightarrow> jsstring" where
  "trim s = rev (dropWhile is_space (rev (dropWhile is_space s)))"

text \<open>The parsing step of \<open>getSQLFromGemini\<close>.\<close>

definition extractSql :: "jsstring \<Rightarrow> jsstring" where
  "extractSql geminiText =
     (case regex_sql_match geminiText of
        Some g \<Rightarrow> trim g
      | None \<Rightarrow> trim geminiText)"

definition getSQLFromGemini :: "'rows world \<Rightarrow> config \<Rightarrow> jsstring \<Rightarrow> js_error + jsstring" where
  "getSQLFromGemini w cfg promptText =
     (case generateContent w
             \<lparr>model = GEMINI_MODEL cfg, contents = promptText,
              config = Some (SqlConfig (systemPrompt cfg))\<rparr> of
        Inl e \<Rightarrow> Inl e
      | Inr geminiText \<Rightarrow> Inr (extractSql geminiText))"

section \<open>Query and narration\<close>

definition runBigQuery :: "'rows world \<Rightarrow> jsstring \<Rightarrow> js_error + 'rows" where
  "runBigQuery w sql = bigquery_query w sql"

text \<open>
  The constant text of the narration template of \<open>formatBigQueryResult\<close>, cut at the
  agent name, the question and the serialised rows.
\<close>

definition narration_head :: jsstring where
  "narration_head = js (concat
    [''\<newline>'',
     ''  You are ''])"

definition narration_question :: jsstring where
  "narration_question = js (concat
    ['', a data analysis assistant.\<newline>'',
     ''\<newline>'',
     ''  Your task is to interpret and translate the result of an SQL query executed in BigQuery into clear natural language.\<newline>'',
     ''\<newline>'',
     ''  You will receive two inputs:\<newline>'',
     ''\<newline>'',
     ''  1. The original question asked by the user in natural language.\<newline>'',
     ''  2. The result of the SQL query, provided as JSON (with rows and columns).\<newline>'',
     ''\<newline>'',
     ''  Your response must:\<newline>'',
     ''\<newline>'',
     ''  - Be clear and concise.\<newline>'',
     ''  - Answer the user's original question directly, based on the data in the SQL result.\<newline>'',
     ''  - Avoid technical language or SQL references.\<newline>'',
     ''  - Do not explain how the SQL query was built, only interpret the result.\<newline>'',
     ''\<newline>'',
     ''  ---\<newline>'',
     ''\<newline>'',
     ''  ***USER'S ORIGINAL QUESTION***\<newline>'',
     ''  ''])"

definition narration_result :: jsstring where
  "narration_result = js (concat
    [''\<newline>'',
     ''\<newline>'',
     ''  ***SQL QUERY RESULT (JSON)***\<newline>'',
     ''  ''])"

definition narration_tail :: jsstring where
  "narration_tail = js (concat
    [''\<newline>''])"

definition formatBigQueryResult ::
    "'rows world \<Rightarrow> config \<Rightarrow> jsstring \<Rightarrow> 'rows \<Rightarrow> js_error + jsstring" where
  "formatBigQueryResult w cfg question rows =
     generateContent w
       \<lparr>model = GEMINI_MODEL cfg,
        contents = narration_head @ AGENT_NAME cfg @ narration_question @ question @
                   narration_result @ JSON_stringify w rows @ narration_tail,
        config = None\<rparr>"

section \<open>Request pipeline\<close>

text \<open>
  \<open>processMessage\<close>: a thrown error (\<open>Inl\<close>) skips the rest of the function; the
  store keeps what was written before.
\<close>

definition processMessage ::
    "'rows world \<Rightarrow> config \<Rightarrow> table list \<Rightarrow> jsstring \<Rightarrow> jsstring \<Rightarrow> store \<Rightarrow>
     (js_error + jsstring) \<times> store" where
  "processMessage w cfg allTableSchemas messageText conversationId s =
     (let s1 = addToConversationHistory conversationId (js ''user'') messageText (now_user w) s;
          (geminiPrompt, s2) = buildPrompt cfg allTableSchemas messageText conversationId s1
      in case getSQLFromGemini w cfg geminiPrompt of
           Inl e \<Rightarrow> (Inl e, s2)
         | Inr sqlQuery \<Rightarrow>
             (case runBigQuery w sqlQuery of
                Inl e \<Rightarrow> (Inl e, s2)
              | Inr bigQueryResult \<Rightarrow>
                  (case formatBigQueryResult w cfg messageText bigQueryResult of
                     Inl e \<Rightarrow> (Inl e, s2)
                   | Inr formattedResponse \<Rightarrow>
                       (Inr formattedResponse,
                        addToConversationHistory conversationId (js ''assistant'')
                          formattedResponse (now_assistant w) s2))))"

section \<open>HTTP handlers\<close>

text \<open>
  The body of a chat request: \<open>message\<close> is \<open>None\<close> when the body has no
  \<open>message\<close> object, otherwise its \<open>text\<close>, a string as the interface
  documents it. The handler reads the text before the identifier.
\<close>

record chat_request =
  message :: "jsstring option"
  conversationId :: jsval

datatype response =
    ChatReply jsstring jsstring
  | ChatError jsstring
  | ClearReply jsstring jsstring
  | HistoryReply jsstring "turn list" nat

text \<open>
  \<open>ChatReply text conversationId\<close> is \<open>res.json({ text, conversationId })\<close>,
  \<open>ChatError text\<close> the status 500 with \<open>{ text }\<close>,
  \<open>ClearReply message conversationId\<close> is \<open>{ success: true, message, conversationId }\<close>
  and \<open>HistoryReply conversationId history messageCount\<close> the reply of the history
  endpoint. Nothing inside the \<open>try\<close> of the clear and history handlers throws.
\<close>

definition chatBot ::
    "'rows world \<Rightarrow> config \<Rightarrow> table list \<Rightarrow> chat_request \<Rightarrow> store \<Rightarrow> response \<times> store" where
  "chatBot w cfg allTableSchemas req s =
     (let failed = (\<lambda>e. ChatError
            (js ''An error occurred while processing your request: '' @ js_error.message e))
      in case message req of
           None \<Rightarrow> (failed (TypeError w), s)
         | Some messageText \<Rightarrow>
             (let conversationId' = or_default (conversationId req)
              in case processMessage w cfg allTableSchemas messageText conversationId' s of
                   (Inl e, s') \<Rightarrow> (failed e, s')
                 | (Inr replyText, s') \<Rightarrow> (ChatReply replyText conversationId', s')))"

definition clearConversation :: "jsval \<Rightarrow> store \<Rightarrow> response \<times> store" where
  "clearConversation conversationId_field s =
     (let conversationId' = or_default conversationId_field
      in (ClearReply (js ''Conversation history cleared for ID: '' @ conversationId')
            conversationId',
          clearConversationHistory conversationId' s))"

definition getConversationHistory_endpoint :: "jsval \<Rightarrow> store \<Rightarrow> response \<times> store" where
  "getConversationHistory_endpoint conversationId_field s =
     (let conversationId' = or_default conversationId_field;
          (history, s') = getConversationHistory conversationId' s
      in (HistoryReply conversationId' history (length history), s'))"

section \<open>Vocabulary of the properties\<close>

text \<open>Every stored history has at most 10 turns.\<close>

definition bounded :: "store \<Rightarrow> bool" where
  "bounded s = (\<forall>k h. s k = Some h \<longrightarrow> length h \<le> 10)"

text \<open>The turns that the \<open>Append\<close> operations of a run add to conversation \<open>k\<close>, in order.\<close>

fun appended_to :: "jsstring \<Rightarrow> store_op list \<Rightarrow> turn list" where
  "appended_to k [] = []"
| "appended_to k (Append k' r c t # ops) =
     (if k' = k then [\<lparr>role = r, content = c, timestamp = t\<rparr>] else []) @ appended_to k ops"
| "appended_to k (Clear k' # ops) = appended_to k ops"

text \<open>The first position at which a pattern matches, ignoring case.\<close>

fun find_ci :: "jsstring \<Rightarrow> jsstring \<Rightarrow> nat option" where
  "find_ci p [] = (if matches_ci p [] then Some 0 else None)"
| "find_ci p (c # cs) =
     (if matches_ci p (c # cs) then Some 0 else map_option Suc (find_ci p cs))"

text \<open>No two neighbours of a list are equal.\<close>

fun alternating :: "'a list \<Rightarrow> bool" where
  "alternating (a # b # xs) = (a \<noteq> b \<and> alternating (b # xs))"
| "alternating xs = True"

text \<open>The assistant turn a chat request records when it replies, none when it fails.\<close>

fun assistant_turns :: "'rows world \<Rightarrow> response \<Rightarrow> turn list" where
  "assistant_turns w (ChatReply replyText conversationId') =
     [\<lparr>role = js ''assistant'', content = replyText, timestamp = now_assistant w\<rparr>]"
| "assistant_turns w r = []"

definition user_turn :: "'rows world \<Rightarrow> jsstring \<Rightarrow> turn" where
  "user_turn w messageText = \<lparr>role = js ''user'', content = messageText, timestamp = now_user w\<rparr>"

section \<open>Example inputs\<close>

definition demo_turn :: "nat \<Rightarrow> turn" where
  "demo_turn n = \<lparr>role = js ''user'', content = [of_nat n], timestamp = js ''t''\<rparr>"

definition demo_append :: "jsstring \<Rightarrow> nat \<Rightarrow> store_op" where
  "demo_append k n = Append k (js ''user'') [of_nat n] (js ''t'')"

definition demo_ops :: "store_op list" where
  "demo_ops =
     map (demo_append (js ''a'')) [0, 1, 2, 3, 4, 5] @
     [Clear (js ''b''), demo_append (js ''b'') 100] @
     map (demo_append (js ''a'')) [6, 7, 8, 9, 10, 11]"

definition demo_store :: store where
  "demo_store = Map.empty(js ''a'' \<mapsto> map demo_turn [0, 1, 2, 3, 4, 5, 6, 7, 8, 9])"

text \<open>A reply whose SQL block uses CR LF line ends, and the interior of that block.\<close>

definition crlf_interior :: jsstring where
  "crlf_interior = [0x0D, 0x0A] @ js ''SELECT 1'' @ [0x0D, 0x0A]"

definition crlf_reply :: jsstring where
  "crlf_reply = js ''```sql'' @ crlf_interior @ js ''```''"

definition fenced_reply :: jsstring where
  "fenced_reply = js ''Here: ```SQL\<newline>SELECT 1\<newline>``` ok''"

definition demo_config :: config where
  "demo_config = \<lparr>PROJECT_ID = js ''p'', GEMINI_MODEL = js ''g'', AGENT_NAME = js ''n''\<rparr>"

definition sales_table :: table where
  "sales_table =
     \<lparr>datasetName = js ''d'', tableName = js ''sales'',
      schema = [\<lparr>name = js ''region'', type = js ''STRING''\<rparr>,
                \<lparr>name = js ''total'', type = js ''INT64''\<rparr>]\<rparr>"

definition demo_catalog :: "table list" where
  "demo_catalog = [sales_table]"

text \<open>A world in which the model answers and the warehouse rejects the query.\<close>

definition failing_world :: "unit world" where
  "failing_world =
     \<lparr>now_user = js ''t1'', now_assistant = js ''t2'',
      generateContent = (\<lambda>request. Inr (js ''SELECT 1'')),
      bigquery_query = (\<lambda>sql. Inl (JsError (js ''boom''))),
      JSON_stringify = (\<lambda>rows. js ''[]''),
      TypeError = JsError (js ''no message'')\<rparr>"

text \<open>A world in which every service answers.\<close>

definition replying_world :: "unit world" where
  "replying_world =
     \<lparr>now_user = js ''t1'', now_assistant = js ''t2'',
      generateContent = (\<lambda>request. Inr (js ''ok'')),
      bigquery_query = (\<lambda>sql. Inr ()),
      JSON_stringify = (\<lambda>rows. js ''[]''),
      TypeError = JsError (js ''no message'')\<rparr>"

definition chat :: "jsstring \<Rightarrow> chat_request" where
  "chat messageText = \<lparr>message = Some messageText, conversationId = JUndefined\<rparr>"

text \<open>
  The store after a chat request that failed at the warehouse, and the store in which the
  next chat request, asking \<open>b\<close>, builds its prompt.
\<close>

definition store_after_failure :: store where
  "store_after_failure = snd (chatBot failing_world demo_config demo_catalog (chat (js ''a'')) Map.empty)"

definition store_of_next_prompt :: store where
  "store_of_next_prompt =
     addToConversationHistory (js ''default'') (js ''user'') (js ''b'') (js ''t1'') store_after_failure"

text \<open>Two stores that hold the same history under different identifiers.\<close>

definition store_x :: store where
  "store_x = [js ''x'' \<mapsto> [demo_turn 1]]"

definition store_y :: store where
  "store_y = [js ''y'' \<mapsto> [demo_turn 1], js ''z'' \<mapsto> [demo_turn 2, demo_turn 3]]"

text \<open>The store after a chat request that was answered.\<close>

definition store_after_reply :: store where
  "store_after_reply =
     snd (chatBot replying_world demo_config demo_catalog (chat (js ''a'')) Map.empty)"

text \<open>That store with a second conversation beside \<open>default\<close>.\<close>

definition two_conversations :: store where
  "two_conversations = store_after_reply(js ''other'' \<mapsto> [demo_turn 0])"

section \<open>Properties of the conversation store\<close>

lemma ensure_present:
  "Map_get (if \<not> Map_has s k then Map_set s k [] else s) k \<noteq> None"
  by (simp add: Map_get_def Map_has_def Map_set_def)

lemma get_fst: "fst (getConversationHistory k s) = (case s k of Some h \<Rightarrow> h | None \<Rightarrow> [])"
  by (simp add: getConversationHistory_def Map_get_def)

lemma get_snd: "snd (getConversationHistory k s) = s"
  by (simp add: getConversationHistory_def)

lemma add_same:
  "addToConversationHistory k r c t s k =
     Some (keep_last_10
       (fst (getConversationHistory k s) @ [\<lparr>role = r, content = c, timestamp = t\<rparr>]))"
  by (simp add: addToConversationHistory_def get_fst Map_get_def Map_has_def Map_set_def
           split: option.splits)

lemma add_other: "k' \<noteq> k \<Longrightarrow> addToConversationHistory k r c t s k' = s k'"
  by (simp add: addToConversationHistory_def Map_get_def Map_has_def Map_set_def
           split: option.splits)

lemma get_add_same:
  "fst (getConversationHistory k (addToConversationHistory k r c t s)) =
     keep_last_10 (fst (getConversationHistory k s) @ [\<lparr>role = r, content = c, timestamp = t\<rparr>])"
  by (simp add: get_fst [of k "addToConversationHistory k r c t s"] add_same)

lemma keep_last_10_length: "length (keep_last_10 h) \<le> 10"
  by (simp add: keep_last_10_def)

lemma keep_last_10_drop: "keep_last_10 h = drop (length h - 10) h"
  by (simp add: keep_last_10_def)

lemma keep_last_10_snoc: "keep_last_10 (keep_last_10 h @ [x]) = keep_last_10 (h @ [x])"
proof -
  have "length h - (length h - 10 + 9) + (length h - 10) = length h - 9"
    by arith
  then show ?thesis
    by (simp add: keep_last_10_drop)
qed

lemma clear_same: "clearConversationHistory k s k = None"
  by (simp add: clearConversationHistory_def Map_delete_def)

lemma clear_other: "k' \<noteq> k \<Longrightarrow> clearConversationHistory k s k' = s k'"
  by (simp add: clearConversationHistory_def Map_delete_def)

lemma apply_op_bounded: "bounded s \<Longrightarrow> bounded (apply_op x s)"
proof (cases x)
  case (Append k r c t)
  assume b: "bounded s"
  show ?thesis unfolding bounded_def
  proof (intro allI impI)
    fix k' h assume h: "apply_op x s k' = Some h"
    show "length h \<le> 10"
    proof (cases "k' = k")
      case True
      with h Append show ?thesis by (auto simp: add_same keep_last_10_length)
    next
      case False
      with h Append b show ?thesis by (simp add: add_other bounded_def)
    qed
  qed
next
  case (Clear k)
  assume b: "bounded s"
  show ?thesis unfolding bounded_def
  proof (intro allI impI)
    fix k' h assume h: "apply_op x s k' = Some h"
    show "length h \<le> 10"
      using h Clear b by (cases "k' = k") (simp_all add: clear_same clear_other bounded_def)
  qed
qed

lemma apply_ops_bounded: "bounded s \<Longrightarrow> bounded (apply_ops ops s)"
  unfolding apply_ops_def by (induction ops arbitrary: s) (simp_all add: apply_op_bounded)

lemma appended_to_append: "appended_to k (xs @ ys) = appended_to k xs @ appended_to k ys"
  by (induction k xs rule: appended_to.induct) simp_all

lemma apply_ops_snoc: "apply_ops (ops @ [x]) s = apply_op x (apply_ops ops s)"
  by (simp add: apply_ops_def)

lemma get_after_ops:
  "s k = None \<Longrightarrow> Clear k \<notin> set ops \<Longrightarrow>
   fst (getConversationHistory k (apply_ops ops s)) = keep_last_10 (appended_to k ops)"
proof (induction ops rule: rev_induct)
  case Nil
  then show ?case by (simp add: apply_ops_def get_fst keep_last_10_def)
next
  case (snoc x ops)
  then have IH:
    "fst (getConversationHistory k (apply_ops ops s)) = keep_last_10 (appended_to k ops)"
    by simp
  show ?case
  proof (cases x)
    case (Append k' r c t)
    show ?thesis
    proof (cases "k' = k")
      case True
      then show ?thesis
        using Append IH
        by (simp add: apply_ops_snoc get_add_same appended_to_append keep_last_10_snoc)
    next
      case False
      then have "addToConversationHistory k' r c t (apply_ops ops s) k = apply_ops ops s k"
        by (simp add: add_other)
      then show ?thesis
        using Append IH False
        by (simp add: apply_ops_snoc get_fst appended_to_append)
    qed
  next
    case (Clear k')
    with snoc.prems have "k' \<noteq> k" by auto
    then have "clearConversationHistory k' (apply_ops ops s) k = apply_ops ops s k"
      by (simp add: clear_other)
    then show ?thesis
      using Clear IH by (simp add: apply_ops_snoc get_fst appended_to_append)
  qed
qed

text \<open>
  C1. Start from a store in which conversation \<open>k\<close> has no history, and run any
  sequence of store operations that does not clear \<open>k\<close> (appends to \<open>k\<close>, mixed
  with operations on other conversations). With \<open>N\<close> the number of turns appended to
  \<open>k\<close>, \<open>getConversationHistory\<close> returns exactly \<open>min N 10\<close> turns: the appended
  turns in the order of their appends, without the \<open>N - 10\<close> oldest.
\<close>

theorem history_after_appends:
  assumes "s k = None" and "Clear k \<notin> set ops"
  shows "fst (getConversationHistory k (apply_ops ops s)) =
           drop (length (appended_to k ops) - 10) (appended_to k ops) \<and>
         length (fst (getConversationHistory k (apply_ops ops s))) =
           min (length (appended_to k ops)) 10"
  using get_after_ops [of s k ops] assms by (simp add: keep_last_10_drop)

theorem history_after_appends_witness:
  "Map.empty (js ''a'') = None \<and> Clear (js ''a'') \<notin> set demo_ops \<and>
   fst (getConversationHistory (js ''a'') (apply_ops demo_ops Map.empty)) =
     map demo_turn [2, 3, 4, 5, 6, 7, 8, 9, 10, 11] \<and>
   length (fst (getConversationHistory (js ''a'') (apply_ops demo_ops Map.empty))) = min 12 10"
  using history_after_appends [of Map.empty "js ''a''" demo_ops]
  by (simp add: demo_ops_def demo_append_def demo_turn_def js_def)

text \<open>
  C4. Any run of append and clear operations keeps every stored history at 10 turns
  or fewer, from a store that satisfies the bound and so from the empty store. An append
  stores the old history followed by the new turn, without the leading turns beyond the
  last 10: the new turn is always the last one kept, and a full history of 10 loses
  exactly its first turn.
\<close>

theorem history_never_exceeds_10:
  "(bounded s \<longrightarrow> bounded (apply_ops ops s)) \<and>
   bounded (apply_ops ops Map.empty) \<and>
   fst (getConversationHistory k (addToConversationHistory k r c t s)) =
     drop (length (fst (getConversationHistory k s)) + 1 - 10)
       (fst (getConversationHistory k s) @ [\<lparr>role = r, content = c, timestamp = t\<rparr>]) \<and>
   last (fst (getConversationHistory k (addToConversationHistory k r c t s))) =
     \<lparr>role = r, content = c, timestamp = t\<rparr> \<and>
   (length (fst (getConversationHistory k s)) = 10 \<longrightarrow>
      fst (getConversationHistory k (addToConversationHistory k r c t s)) =
        tl (fst (getConversationHistory k s)) @ [\<lparr>role = r, content = c, timestamp = t\<rparr>])"
proof -
  let ?h = "fst (getConversationHistory k s)"
  let ?t = "\<lparr>role = r, content = c, timestamp = t\<rparr>"
  have a: "fst (getConversationHistory k (addToConversationHistory k r c t s)) =
             keep_last_10 (?h @ [?t])"
    by (rule get_add_same)
  have e: "bounded Map.empty" by (simp add: bounded_def)
  have l: "last (keep_last_10 (?h @ [?t])) = ?t"
    by (simp add: keep_last_10_drop)
  have f: "length ?h = 10 \<Longrightarrow> keep_last_10 (?h @ [?t]) = tl ?h @ [?t]"
    by (simp add: keep_last_10_drop drop_Suc)
  show ?thesis
    using a e l f apply_ops_bounded [of s ops] apply_ops_bounded [of Map.empty ops]
    by (simp add: keep_last_10_drop)
qed

theorem history_never_exceeds_10_witness:
  "bounded demo_store \<and> length (fst (getConversationHistory (js ''a'') demo_store)) = 10 \<and>
   bounded (apply_ops demo_ops demo_store) \<and>
   fst (getConversationHistory (js ''a'')
          (addToConversationHistory (js ''a'') (js ''user'') [10] (js ''t'') demo_store)) =
     map demo_turn [1, 2, 3, 4, 5, 6, 7, 8, 9, 10]"
proof -
  have b: "bounded demo_store"
    by (auto simp: bounded_def demo_store_def split: if_splits)
  have l: "length (fst (getConversationHistory (js ''a'') demo_store)) = 10"
    by (simp add: get_fst demo_store_def)
  show ?thesis
    using b l
      history_never_exceeds_10 [of demo_store demo_ops "js ''a''" "js ''user''" "[10]" "js ''t''"]
    by (simp add: get_fst demo_store_def demo_turn_def)
qed

text \<open>
  C5. After \<open>clearConversationHistory k\<close> the history of \<open>k\<close> reads as empty and
  \<open>k\<close> is no key of the store any more, whatever the store held before. Clearing
  twice gives the same store as clearing once, and clearing an identifier that has no
  entry changes nothing.
\<close>

theorem clear_then_get_empty:
  "fst (getConversationHistory k (clearConversationHistory k s)) = [] \<and>
   clearConversationHistory k s k = None \<and>
   k \<notin> dom (clearConversationHistory k s) \<and>
   clearConversationHistory k (clearConversationHistory k s) = clearConversationHistory k s \<and>
   (s k = None \<longrightarrow> clearConversationHistory k s = s)"
  by (auto simp: get_fst clear_same clearConversationHistory_def Map_delete_def)

theorem clear_then_get_empty_witness:
  "demo_store (js ''b'') = None \<and> clearConversationHistory (js ''b'') demo_store = demo_store \<and>
   fst (getConversationHistory (js ''a'') (clearConversationHistory (js ''a'') demo_store)) = []"
  using clear_then_get_empty [of "js ''b''" demo_store]
    clear_then_get_empty [of "js ''a''" demo_store]
  by (simp add: demo_store_def js_def)

text \<open>
  C9. \<open>getConversationHistory\<close> returns the store it was given, as does the history
  endpoint built on it, and for an identifier without an entry it returns the empty
  sequence.
\<close>

theorem get_never_mutates:
  "snd (getConversationHistory k s) = s \<and>
   snd (getConversationHistory_endpoint v s) = s \<and>
   (s k = None \<longrightarrow> fst (getConversationHistory k s) = [])"
  by (simp add: getConversationHistory_endpoint_def getConversationHistory_def Map_get_def
        Let_def)

theorem get_never_mutates_witness:
  "demo_store (js ''b'') = None \<and> fst (getConversationHistory (js ''b'') demo_store) = [] \<and>
   snd (getConversationHistory (js ''b'') demo_store) = demo_store"
  using get_never_mutates [of "js ''b''" demo_store]
  by (simp add: demo_store_def js_def)

section \<open>Properties of the SQL extraction\<close>

lemma length_opener: "length opener = 7"
  by (simp add: opener_def js_def)

lemma fence_not_empty: "\<not> matches_ci fence []"
  by (simp add: fence_def js_def)

text \<open>\<open>find_ci\<close> gives the least position at which the pattern matches.\<close>

lemma find_ci_Some_iff:
  "find_ci p s = Some i \<longleftrightarrow>
     i \<le> length s \<and> matches_ci p (drop i s) \<and> (\<forall>j<i. \<not> matches_ci p (drop j s))"
proof (induction s arbitrary: i)
  case Nil
  then show ?case by auto
next
  case (Cons c cs)
  show ?case
  proof (cases "matches_ci p (c # cs)")
    case True
    then show ?thesis by (cases i) auto
  next
    case False
    show ?thesis
    proof (cases i)
      case 0
      with False show ?thesis by simp
    next
      case (Suc i')
      have "(\<forall>j<Suc i'. \<not> matches_ci p (drop j (c # cs))) \<longleftrightarrow>
            (\<forall>j<i'. \<not> matches_ci p (drop j cs))"
        using False by (auto simp: less_Suc_eq_0_disj)
      with Suc False Cons.IH [of i'] show ?thesis by auto
    qed
  qed
qed

lemma lazy_capture_find:
  "lazy_capture s = map_option (\<lambda>n. take n s) (find_ci fence s)"
  by (induction s) (simp_all add: fence_not_empty option.map_comp comp_def)

lemma find_ci_drop_None: "find_ci fence s = None \<Longrightarrow> find_ci fence (drop n s) = None"
proof (induction s arbitrary: n)
  case Nil
  then show ?case by simp
next
  case (Cons c cs)
  then have "find_ci fence cs = None" by (simp split: if_splits)
  with Cons show ?case by (cases n) simp_all
qed

lemma no_fence_no_match:
  "find_ci fence (drop (length opener) s) = None \<Longrightarrow> regex_sql_match s = None"
proof (induction s)
  case Nil
  then show ?case by simp
next
  case (Cons c cs)
  have "drop (length opener) cs = drop 1 (drop (length opener) (c # cs))"
    by (simp add: length_opener drop_Suc drop_tl)
  with Cons.prems have "find_ci fence (drop (length opener) cs) = None"
    by (simp only: find_ci_drop_None)
  with Cons.IH have "regex_sql_match cs = None" by simp
  with Cons.prems show ?case by (simp add: lazy_capture_find)
qed

lemma no_opener_no_match: "find_ci opener s = None \<Longrightarrow> regex_sql_match s = None"
  by (induction s) (simp_all split: if_splits)

lemma first_opener_unclosed:
  "find_ci opener s = Some i \<Longrightarrow> find_ci fence (drop (i + length opener) s) = None \<Longrightarrow>
   regex_sql_match s = None"
proof (induction s arbitrary: i)
  case Nil
  then show ?case by simp
next
  case (Cons c cs)
  show ?case
  proof (cases "matches_ci opener (c # cs)")
    case True
    with Cons.prems have i: "i = 0" by simp
    with Cons.prems have n: "find_ci fence (drop (length opener) (c # cs)) = None" by simp
    from no_fence_no_match [OF n] show ?thesis .
  next
    case False
    with Cons.prems obtain i' where i': "i = Suc i'" "find_ci opener cs = Some i'"
      by auto
    with Cons.prems have "find_ci fence (drop (i' + length opener) cs) = None" by simp
    with Cons.IH i' have "regex_sql_match cs = None" by blast
    with False show ?thesis by simp
  qed
qed

lemma first_opener_closed:
  "find_ci opener s = Some i \<Longrightarrow> find_ci fence (drop (i + length opener) s) = Some n \<Longrightarrow>
   regex_sql_match s = Some (take n (drop (i + length opener) s))"
proof (induction s arbitrary: i)
  case Nil
  then show ?case by (simp add: fence_not_empty split: if_splits)
next
  case (Cons c cs)
  show ?case
  proof (cases "matches_ci opener (c # cs)")
    case True
    with Cons.prems have i: "i = 0" by simp
    with Cons.prems True show ?thesis by (simp add: lazy_capture_find)
  next
    case False
    with Cons.prems obtain i' where i': "i = Suc i'" "find_ci opener cs = Some i'"
      by auto
    with Cons.prems have "find_ci fence (drop (i' + length opener) cs) = Some n" by simp
    with Cons.IH i' have "regex_sql_match cs = Some (take n (drop (i' + length opener) cs))"
      by blast
    with False i' show ?thesis by simp
  qed
qed

text \<open>
  C2, as stated, fails: the pattern wants a line feed directly after the tag. The reply
  \<open>crlf_reply\<close> is a fenced block tagged \<open>sql\<close> whose lines end in CR LF; its
  interior trims to \<open>SELECT 1\<close>, but the extraction finds no match and returns the
  whole reply, fences included.
\<close>

theorem extractSql_crlf_counterexample:
  "crlf_reply = fence @ js ''sql'' @ crlf_interior @ fence \<and>
   trim crlf_interior = js ''SELECT 1'' \<and>
   extractSql crlf_reply = crlf_reply \<and>
   extractSql crlf_reply \<noteq> trim crlf_interior"
  by (simp add: extractSql_def crlf_reply_def crlf_interior_def js_def opener_def fence_def
        ci_eq_def ascii_upper_def trim_def is_space_def)

text \<open>
  C2, amended. An opening fence is the text \<open>```sql\<close> in any letter case directly
  followed by a line feed. When the reply has one, at first position \<open>i\<close>, and the
  text after it contains a closing \<open>```\<close>, first at offset \<open>n\<close>, the extraction
  returns the trimmed text between the two. When the reply has no opening fence, or no
  \<open>```\<close> after the first one, the extraction returns the whole reply trimmed.
\<close>

theorem extractSql_first_block:
  "(find_ci opener reply = Some i \<and>
    find_ci fence (drop (i + length opener) reply) = Some n \<longrightarrow>
      extractSql reply = trim (take n (drop (i + length opener) reply))) \<and>
   (find_ci opener reply = None \<or>
    (find_ci opener reply = Some i \<and>
     find_ci fence (drop (i + length opener) reply) = None) \<longrightarrow>
      extractSql reply = trim reply)"
  using first_opener_closed [of reply i n] first_opener_unclosed [of reply i]
    no_opener_no_match [of reply]
  by (auto simp: extractSql_def)

theorem extractSql_first_block_witness:
  "find_ci opener fenced_reply = Some 6 \<and>
   find_ci fence (drop (6 + length opener) fenced_reply) = Some 9 \<and>
   extractSql fenced_reply = js ''SELECT 1'' \<and>
   find_ci opener (js '' SELECT 2 '') = None \<and>
   extractSql (js '' SELECT 2 '') = js ''SELECT 2''"
proof -
  have a: "find_ci opener fenced_reply = Some 6"
    by (simp add: fenced_reply_def js_def opener_def ci_eq_def ascii_upper_def)
  have b: "find_ci fence (drop (6 + length opener) fenced_reply) = Some 9"
    by (simp add: fenced_reply_def js_def opener_def fence_def ci_eq_def ascii_upper_def)
  have c: "find_ci opener (js '' SELECT 2 '') = None"
    by (simp add: js_def opener_def ci_eq_def ascii_upper_def)
  have d: "trim (take 9 (drop (6 + length opener) fenced_reply)) = js ''SELECT 1''"
    by (simp add: fenced_reply_def js_def opener_def trim_def is_space_def)
  have e: "trim (js '' SELECT 2 '') = js ''SELECT 2''"
    by (simp add: js_def trim_def is_space_def)
  show ?thesis
    using a b c d e extractSql_first_block [of fenced_reply 6 9]
      extractSql_first_block [of "js '' SELECT 2 ''" 0 0]
    by simp
qed

section \<open>Properties of the prompt builder\<close>

lemma buildPrompt_fst:
  "fst (buildPrompt cfg cat q k s) =
     prompt_head @ allSchemasString cfg cat @ prompt_gap @
     conversationContext (fst (getConversationHistory k s)) @
     prompt_rules_and_examples @ q @ prompt_tail"
  by (simp add: buildPrompt_def split: prod.splits)

lemma buildPrompt_snd: "snd (buildPrompt cfg cat q k s) = s"
  by (simp add: buildPrompt_def getConversationHistory_def)

lemma allSchemasString_project:
  "PROJECT_ID cfg1 = PROJECT_ID cfg2 \<Longrightarrow> allSchemasString cfg1 cat = allSchemasString cfg2 cat"
proof -
  assume "PROJECT_ID cfg1 = PROJECT_ID cfg2"
  then have "table_block cfg1 = table_block cfg2"
    by (intro ext) (simp add: table_block_def qualified_name_def)
  then show ?thesis by (simp add: allSchemasString_def)
qed

text \<open>
  C6. Two runs of \<open>buildPrompt\<close> with the same question and catalog, whose
  conversations hold the same history and whose configurations have the same project
  identifier, build the same prompt, code unit for code unit: whatever else differs
  between the runs (the rest of the store, the identifier of the conversation, the agent
  name, the model) has no influence. The function returns the store as it received it.
\<close>

theorem buildPrompt_deterministic:
  "(fst (getConversationHistory k1 s1) = fst (getConversationHistory k2 s2) \<and>
    PROJECT_ID cfg1 = PROJECT_ID cfg2 \<longrightarrow>
      fst (buildPrompt cfg1 cat q k1 s1) = fst (buildPrompt cfg2 cat q k2 s2)) \<and>
   snd (buildPrompt cfg1 cat q k1 s1) = s1"
  by (simp add: buildPrompt_fst buildPrompt_snd allSchemasString_project [of cfg1 cfg2])

theorem buildPrompt_deterministic_witness:
  "fst (getConversationHistory (js ''x'') store_x) = fst (getConversationHistory (js ''y'') store_y) \<and>
   PROJECT_ID demo_config = PROJECT_ID (demo_config\<lparr>AGENT_NAME := js ''other''\<rparr>) \<and>
   store_x \<noteq> store_y \<and>
   fst (buildPrompt demo_config demo_catalog (js ''q'') (js ''x'') store_x) =
   fst (buildPrompt (demo_config\<lparr>AGENT_NAME := js ''other''\<rparr>) demo_catalog (js ''q'')
          (js ''y'') store_y)"
proof -
  have h: "fst (getConversationHistory (js ''x'') store_x) =
           fst (getConversationHistory (js ''y'') store_y)"
    by (simp add: get_fst store_x_def store_y_def js_def)
  have "store_x (js ''z'') \<noteq> store_y (js ''z'')"
    by (simp add: store_x_def store_y_def js_def)
  then have d: "store_x \<noteq> store_y" by metis
  show ?thesis
    using h d buildPrompt_deterministic [of "js ''x''" store_x "js ''y''" store_y demo_config
        "demo_config\<lparr>AGENT_NAME := js ''other''\<rparr>" demo_catalog "js ''q''"]
    by simp
qed

section \<open>Properties of the request pipeline and the handlers\<close>

lemma processMessage_cases:
  "processMessage w cfg cat m k s =
     (let s1 = addToConversationHistory k (js ''user'') m (now_user w) s
      in case getSQLFromGemini w cfg (fst (buildPrompt cfg cat m k s1)) of
           Inl e \<Rightarrow> (Inl e, s1)
         | Inr sqlQuery \<Rightarrow>
             (case runBigQuery w sqlQuery of
                Inl e \<Rightarrow> (Inl e, s1)
              | Inr rows \<Rightarrow>
                  (case formatBigQueryResult w cfg m rows of
                     Inl e \<Rightarrow> (Inl e, s1)
                   | Inr reply \<Rightarrow>
                       (Inr reply,
                        addToConversationHistory k (js ''assistant'') reply (now_assistant w) s1))))"
  by (simp add: processMessage_def Let_def split_beta buildPrompt_snd)

lemma processMessage_store:
  "snd (processMessage w cfg cat m k s) =
     (case fst (processMessage w cfg cat m k s) of
        Inl e \<Rightarrow> addToConversationHistory k (js ''user'') m (now_user w) s
      | Inr reply \<Rightarrow>
          addToConversationHistory k (js ''assistant'') reply (now_assistant w)
            (addToConversationHistory k (js ''user'') m (now_user w) s))"
  by (simp add: processMessage_cases Let_def split: sum.splits)

lemma chatBot_store:
  "snd (chatBot w cfg cat \<lparr>message = Some m, conversationId = v\<rparr> s) =
     fold (\<lambda>t. addToConversationHistory (or_default v) (role t) (content t) (timestamp t))
       (user_turn w m #
        assistant_turns w (fst (chatBot w cfg cat \<lparr>message = Some m, conversationId = v\<rparr> s))) s"
proof (cases "fst (processMessage w cfg cat m (or_default v) s)")
  case (Inl e)
  with processMessage_store [of w cfg cat m "or_default v" s]
  have "processMessage w cfg cat m (or_default v) s =
          (Inl e, addToConversationHistory (or_default v) (js ''user'') m (now_user w) s)"
    by (metis prod.collapse sum.simps(5))
  then show ?thesis
    by (simp add: chatBot_def Let_def user_turn_def)
next
  case (Inr reply)
  with processMessage_store [of w cfg cat m "or_default v" s]
  have "processMessage w cfg cat m (or_default v) s =
          (Inr reply, addToConversationHistory (or_default v) (js ''assistant'') reply (now_assistant w)
            (addToConversationHistory (or_default v) (js ''user'') m (now_user w) s))"
    by (metis prod.collapse sum.simps(6))
  then show ?thesis
    by (simp add: chatBot_def Let_def user_turn_def)
qed


lemma keep_last_10_idem: "keep_last_10 (keep_last_10 h) = keep_last_10 h"
  by (simp add: keep_last_10_def)

lemma keep_last_10_append: "keep_last_10 (keep_last_10 a @ b) = keep_last_10 (a @ b)"
proof (induction b rule: rev_induct)
  case Nil
  then show ?case by (simp add: keep_last_10_idem)
next
  case (snoc x b)
  have "keep_last_10 (keep_last_10 a @ b @ [x]) = keep_last_10 (keep_last_10 (keep_last_10 a @ b) @ [x])"
    using keep_last_10_snoc [of "keep_last_10 a @ b" x] by simp
  also have "\<dots> = keep_last_10 (keep_last_10 (a @ b) @ [x])"
    by (simp only: snoc.IH)
  also have "\<dots> = keep_last_10 (a @ b @ [x])"
    using keep_last_10_snoc [of "a @ b" x] by simp
  finally show ?case by simp
qed

lemma turn_eta: "\<lparr>role = role t, content = content t, timestamp = timestamp t\<rparr> = (t::turn)"
  by (cases t) simp

lemma fold_add_get:
  "fst (getConversationHistory k
     (fold (\<lambda>t. addToConversationHistory k (role t) (content t) (timestamp t)) (t # ts) s)) =
   keep_last_10 (fst (getConversationHistory k s) @ t # ts)"
proof (induction ts rule: rev_induct)
  case Nil
  show ?case using get_add_same [of k "role t" "content t" "timestamp t" s]
    by (simp add: turn_eta)
next
  case (snoc x ts)
  have "keep_last_10 (keep_last_10 (fst (getConversationHistory k s) @ t # ts) @ [x]) =
        keep_last_10 (fst (getConversationHistory k s) @ t # ts @ [x])"
    using keep_last_10_snoc [of "fst (getConversationHistory k s) @ t # ts" x] by simp
  with snoc show ?case
    using get_add_same [of k "role x" "content x" "timestamp x"] by (simp add: turn_eta)
qed

lemma fold_add_other:
  "k' \<noteq> k \<Longrightarrow>
   fold (\<lambda>t. addToConversationHistory k (role t) (content t) (timestamp t)) ts s k' = s k'"
  by (induction ts arbitrary: s) (simp_all add: add_other)

lemma chatBot_field:
  "or_default v = or_default v' \<Longrightarrow>
   chatBot w cfg cat (req\<lparr>conversationId := v\<rparr>) s =
   chatBot w cfg cat (req\<lparr>conversationId := v'\<rparr>) s"
  by (cases "chat_request.message req") (simp_all add: chatBot_def Let_def)

lemma or_default_simps:
  "or_default JUndefined = js ''default''"
  "or_default (JStr []) = js ''default''"
  "or_default (JStr (js ''default'')) = js ''default''"
  by (simp_all add: js_def)

lemma sql_of_failing_world: "getSQLFromGemini failing_world cfg p = Inr (js ''SELECT 1'')"
  by (simp add: getSQLFromGemini_def failing_world_def extractSql_def js_def opener_def
        ci_eq_def ascii_upper_def trim_def is_space_def)

lemma query_of_failing_world: "runBigQuery failing_world sql = Inl (JsError (js ''boom''))"
  by (simp add: runBigQuery_def failing_world_def)

lemma add_to_empty:
  "addToConversationHistory k r c t Map.empty = [k \<mapsto> [\<lparr>role = r, content = c, timestamp = t\<rparr>]]"
  by (simp add: addToConversationHistory_def Map_has_def Map_set_def Map_get_def keep_last_10_def)

lemma store_after_failure_eq:
  "store_after_failure =
     [js ''default'' \<mapsto> [\<lparr>role = js ''user'', content = js ''a'', timestamp = js ''t1''\<rparr>]]"
proof -
  have "processMessage failing_world demo_config demo_catalog (js ''a'') (js ''default'') Map.empty =
          (Inl (JsError (js ''boom'')),
           addToConversationHistory (js ''default'') (js ''user'') (js ''a'') (js ''t1'') Map.empty)"
    by (simp add: processMessage_cases sql_of_failing_world query_of_failing_world)
       (simp add: failing_world_def)
  then show ?thesis
    by (simp add: store_after_failure_def chat_def chatBot_def or_default_simps add_to_empty)
qed

lemma chatBot_replying_world:
  "chatBot replying_world demo_config demo_catalog (chat m) s =
     (ChatReply (js ''ok'') (js ''default''),
      addToConversationHistory (js ''default'') (js ''assistant'') (js ''ok'') (js ''t2'')
        (addToConversationHistory (js ''default'') (js ''user'') m (js ''t1'') s))"
proof -
  have x: "extractSql (js ''ok'') = js ''ok''"
    by (simp add: extractSql_def js_def opener_def ci_eq_def ascii_upper_def trim_def is_space_def)
  have "processMessage replying_world demo_config demo_catalog m (js ''default'') s =
     (Inr (js ''ok''),
      addToConversationHistory (js ''default'') (js ''assistant'') (js ''ok'') (js ''t2'')
        (addToConversationHistory (js ''default'') (js ''user'') m (js ''t1'') s))"
    by (simp add: processMessage_cases getSQLFromGemini_def runBigQuery_def
          formatBigQueryResult_def replying_world_def x)
  then show ?thesis by (simp add: chatBot_def chat_def Let_def)
qed

lemma store_after_reply_eq:
  "store_after_reply =
     [js ''default'' \<mapsto> [\<lparr>role = js ''user'', content = js ''a'', timestamp = js ''t1''\<rparr>,
                          \<lparr>role = js ''assistant'', content = js ''ok'', timestamp = js ''t2''\<rparr>]]"
  by (simp add: store_after_reply_def chatBot_replying_world add_to_empty)
     (simp add: addToConversationHistory_def Map_has_def Map_set_def Map_get_def keep_last_10_def)

text \<open>
  C3. A chat request whose SQL generation succeeds and whose warehouse query fails ends
  \<open>processMessage\<close> with that error, and the handler answers with status 500. The
  store it leaves is the store right after the append of the user's turn: the history
  of the conversation is the last 10 of the old history followed by the user's turn,
  which is its last element; no assistant turn was appended, the user's turn was not
  taken back, and no other conversation changed.
\<close>

theorem warehouse_failure_keeps_user_turn:
  fixes w :: "'rows world" and v :: jsval and m :: jsstring and s :: store
  defines "k \<equiv> or_default v"
  defines "s1 \<equiv> addToConversationHistory k (js ''user'') m (now_user w) s"
  assumes "getSQLFromGemini w cfg (fst (buildPrompt cfg cat m k s1)) = Inr sql"
      and "runBigQuery w sql = Inl e"
  shows "processMessage w cfg cat m k s = (Inl e, s1) \<and>
         chatBot w cfg cat \<lparr>message = Some m, conversationId = v\<rparr> s =
           (ChatError (js ''An error occurred while processing your request: '' @
              js_error.message e), s1) \<and>
         fst (getConversationHistory k s1) =
           keep_last_10 (fst (getConversationHistory k s) @ [user_turn w m]) \<and>
         last (fst (getConversationHistory k s1)) = user_turn w m \<and>
         (\<forall>k'. k' \<noteq> k \<longrightarrow> s1 k' = s k')"
proof -
  have p: "processMessage w cfg cat m k s = (Inl e, s1)"
    using assms(3,4) unfolding s1_def by (simp add: processMessage_cases Let_def)
  have c: "chatBot w cfg cat \<lparr>message = Some m, conversationId = v\<rparr> s =
           (ChatError (js ''An error occurred while processing your request: '' @
              js_error.message e), s1)"
    using p unfolding k_def by (simp add: chatBot_def Let_def)
  have g: "fst (getConversationHistory k s1) =
           keep_last_10 (fst (getConversationHistory k s) @ [user_turn w m])"
    unfolding s1_def user_turn_def by (rule get_add_same)
  have l: "last (keep_last_10 (fst (getConversationHistory k s) @ [user_turn w m])) = user_turn w m"
    by (simp add: keep_last_10_drop)
  have f: "\<forall>k'. k' \<noteq> k \<longrightarrow> s1 k' = s k'"
    unfolding s1_def by (simp add: add_other)
  show ?thesis using p c g l f by simp
qed

theorem warehouse_failure_keeps_user_turn_witness:
  "getSQLFromGemini failing_world demo_config
     (fst (buildPrompt demo_config demo_catalog (js ''a'') (or_default JUndefined)
        (addToConversationHistory (or_default JUndefined) (js ''user'') (js ''a'')
           (now_user failing_world) Map.empty))) = Inr (js ''SELECT 1'') \<and>
   runBigQuery failing_world (js ''SELECT 1'') = Inl (JsError (js ''boom'')) \<and>
   chatBot failing_world demo_config demo_catalog (chat (js ''a'')) Map.empty =
     (ChatError (js ''An error occurred while processing your request: boom''),
      store_after_failure) \<and>
   fst (getConversationHistory (js ''default'') store_after_failure) =
     [\<lparr>role = js ''user'', content = js ''a'', timestamp = js ''t1''\<rparr>]"
proof -
  have t1: "now_user failing_world = js ''t1''" by (simp add: failing_world_def)
  have m: "js ''An error occurred while processing your request: '' @ js ''boom'' =
           js ''An error occurred while processing your request: boom''"
    by (simp add: js_def)
  show ?thesis
    using warehouse_failure_keeps_user_turn [of failing_world demo_config demo_catalog
        "js ''a''" JUndefined Map.empty "js ''SELECT 1''" "JsError (js ''boom'')",
        OF sql_of_failing_world query_of_failing_world]
    by (simp add: sql_of_failing_world query_of_failing_world chat_def or_default_simps t1 m
          add_to_empty store_after_failure_eq get_fst)
qed

text \<open>
  C8. A request without \<open>conversationId\<close> acts on the identifier \<open>default\<close>.
  The clear handler deletes the history of \<open>default\<close>, leaves every other history
  as it was and names \<open>default\<close> in its reply. The history handler replies with the
  identifier \<open>default\<close>, the history stored under \<open>default\<close> and its length, and
  changes nothing. A chat request records its turns in the history of \<open>default\<close>,
  and a reply it gives carries the identifier \<open>default\<close>. Each of the three handlers
  gives the same reply and store as for a request that names \<open>default\<close>. Two chat
  requests in a row that both omit the identifier write to the one history of
  \<open>default\<close>: after them it is the last 10 of the old history, the first request's
  user turn and its assistant turn if it replied, then the second request's; no other
  history changes.
\<close>

theorem omitted_id_uses_default:
  fixes w1 :: "'rows world" and w2 :: "'rows world" and cfg :: config
    and cat :: "table list" and m1 :: jsstring and m2 :: jsstring and s :: store
  defines "r1 \<equiv> chatBot w1 cfg cat \<lparr>message = Some m1, conversationId = JUndefined\<rparr> s"
  defines "r2 \<equiv> chatBot w2 cfg cat \<lparr>message = Some m2, conversationId = JUndefined\<rparr> (snd r1)"
  shows "or_default JUndefined = js ''default'' \<and>
         chatBot w1 cfg cat (req\<lparr>conversationId := JUndefined\<rparr>) s =
           chatBot w1 cfg cat (req\<lparr>conversationId := JStr (js ''default'')\<rparr>) s \<and>
         clearConversation JUndefined s = clearConversation (JStr (js ''default'')) s \<and>
         getConversationHistory_endpoint JUndefined s =
           getConversationHistory_endpoint (JStr (js ''default'')) s \<and>
         fst (getConversationHistory (js ''default'') (snd r2)) =
           keep_last_10 (fst (getConversationHistory (js ''default'') s) @
             user_turn w1 m1 # assistant_turns w1 (fst r1) @
             user_turn w2 m2 # assistant_turns w2 (fst r2)) \<and>
         (\<forall>k. k \<noteq> js ''default'' \<longrightarrow> snd r2 k = s k) \<and>
         clearConversation JUndefined s =
           (ClearReply (js ''Conversation history cleared for ID: default'') (js ''default''),
            clearConversationHistory (js ''default'') s) \<and>
         snd (clearConversation JUndefined s) (js ''default'') = None \<and>
         (\<forall>k. k \<noteq> js ''default'' \<longrightarrow> snd (clearConversation JUndefined s) k = s k) \<and>
         getConversationHistory_endpoint JUndefined s =
           (HistoryReply (js ''default'') (fst (getConversationHistory (js ''default'') s))
              (length (fst (getConversationHistory (js ''default'') s))), s) \<and>
         fst (getConversationHistory (js ''default'') (snd r1)) =
           keep_last_10 (fst (getConversationHistory (js ''default'') s) @
             user_turn w1 m1 # assistant_turns w1 (fst r1)) \<and>
         (\<forall>k. k \<noteq> js ''default'' \<longrightarrow> snd r1 k = s k) \<and>
         (\<forall>replyText k. fst r1 = ChatReply replyText k \<longrightarrow> k = js ''default'')"
proof -
  let ?d = "js ''default''"
  let ?add = "\<lambda>t. addToConversationHistory ?d (role t) (content t) (timestamp t)"
  have s1: "snd r1 = fold ?add (user_turn w1 m1 # assistant_turns w1 (fst r1)) s"
    unfolding r1_def using chatBot_store [of w1 cfg cat m1 JUndefined s]
    by (simp only: or_default_simps)
  have s2: "snd r2 = fold ?add (user_turn w2 m2 # assistant_turns w2 (fst r2)) (snd r1)"
    unfolding r2_def using chatBot_store [of w2 cfg cat m2 JUndefined "snd r1"]
    by (simp only: or_default_simps)
  have h1: "fst (getConversationHistory ?d (snd r1)) =
      keep_last_10 (fst (getConversationHistory ?d s) @
        user_turn w1 m1 # assistant_turns w1 (fst r1))"
    by (simp only: s1 fold_add_get)
  have h2: "fst (getConversationHistory ?d (snd r2)) =
      keep_last_10 (fst (getConversationHistory ?d (snd r1)) @
        user_turn w2 m2 # assistant_turns w2 (fst r2))"
    by (simp only: s2 fold_add_get)
  have h: "fst (getConversationHistory ?d (snd r2)) =
      keep_last_10 (fst (getConversationHistory ?d s) @
        user_turn w1 m1 # assistant_turns w1 (fst r1) @
        user_turn w2 m2 # assistant_turns w2 (fst r2))"
    unfolding h2 h1 by (simp add: keep_last_10_append)
  have f1: "\<forall>k. k \<noteq> ?d \<longrightarrow> snd r1 k = s k"
  proof (intro allI impI)
    fix k assume ne: "k \<noteq> ?d"
    show "snd r1 k = s k"
      by (simp only: s1 fold_add_other [OF ne])
  qed
  have f: "\<forall>k. k \<noteq> ?d \<longrightarrow> snd r2 k = s k"
  proof (intro allI impI)
    fix k assume ne: "k \<noteq> ?d"
    have "snd r2 k = snd r1 k"
      by (simp only: s2 fold_add_other [OF ne])
    also have "\<dots> = s k"
      using f1 ne by blast
    finally show "snd r2 k = s k" .
  qed
  have c: "chatBot w1 cfg cat (req\<lparr>conversationId := JUndefined\<rparr>) s =
           chatBot w1 cfg cat (req\<lparr>conversationId := JStr (js ''default'')\<rparr>) s"
    by (rule chatBot_field) (simp only: or_default_simps)
  have e: "clearConversation JUndefined s = clearConversation (JStr (js ''default'')) s"
    unfolding clearConversation_def by (simp only: or_default_simps)
  have g: "getConversationHistory_endpoint JUndefined s =
           getConversationHistory_endpoint (JStr (js ''default'')) s"
    unfolding getConversationHistory_endpoint_def by (simp only: or_default_simps)
  have m: "js ''Conversation history cleared for ID: '' @ ?d =
           js ''Conversation history cleared for ID: default''"
    by (simp add: js_def)
  have ca: "clearConversation JUndefined s =
      (ClearReply (js ''Conversation history cleared for ID: default'') ?d,
       clearConversationHistory ?d s)"
    by (simp add: clearConversation_def Let_def m)
  have cd: "snd (clearConversation JUndefined s) ?d = None"
    by (simp only: ca snd_conv clear_same)
  have co: "\<forall>k. k \<noteq> ?d \<longrightarrow> snd (clearConversation JUndefined s) k = s k"
    by (simp add: ca clear_other)
  have ga: "getConversationHistory_endpoint JUndefined s =
      (HistoryReply ?d (fst (getConversationHistory ?d s))
         (length (fst (getConversationHistory ?d s))), s)"
    by (simp add: getConversationHistory_endpoint_def Let_def split_beta get_snd)
  have ri: "\<forall>replyText k. fst r1 = ChatReply replyText k \<longrightarrow> k = ?d"
    unfolding r1_def
    by (auto simp: chatBot_def Let_def split: prod.splits sum.splits)
  have od: "or_default JUndefined = ?d" by simp
  show ?thesis
    by (intro conjI) (fact od c e g h f ca cd co ga h1 f1 ri)+
qed

theorem omitted_id_uses_default_witness:
  "js ''other'' \<noteq> js ''default'' \<and>
   snd (chatBot replying_world demo_config demo_catalog (chat (js ''b''))
     (snd (chatBot replying_world demo_config demo_catalog (chat (js ''a'')) Map.empty)))
     (js ''other'') = None \<and>
   fst (getConversationHistory (js ''default'')
     (snd (chatBot replying_world demo_config demo_catalog (chat (js ''b''))
       (snd (chatBot replying_world demo_config demo_catalog (chat (js ''a'')) Map.empty))))) =
     [\<lparr>role = js ''user'', content = js ''a'', timestamp = js ''t1''\<rparr>,
      \<lparr>role = js ''assistant'', content = js ''ok'', timestamp = js ''t2''\<rparr>,
      \<lparr>role = js ''user'', content = js ''b'', timestamp = js ''t1''\<rparr>,
      \<lparr>role = js ''assistant'', content = js ''ok'', timestamp = js ''t2''\<rparr>] \<and>
   fst (chatBot replying_world demo_config demo_catalog (chat (js ''a'')) Map.empty) =
     ChatReply (js ''ok'') (js ''default'') \<and>
   fst (clearConversation JUndefined two_conversations) =
     ClearReply (js ''Conversation history cleared for ID: default'') (js ''default'') \<and>
   two_conversations (js ''default'') =
     Some [\<lparr>role = js ''user'', content = js ''a'', timestamp = js ''t1''\<rparr>,
           \<lparr>role = js ''assistant'', content = js ''ok'', timestamp = js ''t2''\<rparr>] \<and>
   snd (clearConversation JUndefined two_conversations) (js ''default'') = None \<and>
   snd (clearConversation JUndefined two_conversations) (js ''other'') = Some [demo_turn 0] \<and>
   getConversationHistory_endpoint JUndefined two_conversations =
     (HistoryReply (js ''default'')
        [\<lparr>role = js ''user'', content = js ''a'', timestamp = js ''t1''\<rparr>,
         \<lparr>role = js ''assistant'', content = js ''ok'', timestamp = js ''t2''\<rparr>] 2,
      two_conversations)"
proof -
  have n: "js ''other'' \<noteq> js ''default''" by (simp add: js_def)
  have t: "now_user replying_world = js ''t1''" "now_assistant replying_world = js ''t2''"
    by (simp_all add: replying_world_def)
  have d: "two_conversations (js ''default'') =
     Some [\<lparr>role = js ''user'', content = js ''a'', timestamp = js ''t1''\<rparr>,
           \<lparr>role = js ''assistant'', content = js ''ok'', timestamp = js ''t2''\<rparr>]"
    using n by (simp add: two_conversations_def store_after_reply_eq)
  have o: "two_conversations (js ''other'') = Some [demo_turn 0]"
    by (simp add: two_conversations_def)
  note E = omitted_id_uses_default [where ?w1.0 = replying_world and ?w2.0 = replying_world
      and cfg = demo_config and cat = demo_catalog and s = Map.empty
      and ?m1.0 = "js ''a''" and ?m2.0 = "js ''b''" and req = "chat (js ''a'')"]
  note T = omitted_id_uses_default [where ?w1.0 = replying_world and ?w2.0 = replying_world
      and cfg = demo_config and cat = demo_catalog and s = two_conversations
      and ?m1.0 = "js ''a''" and ?m2.0 = "js ''b''" and req = "chat (js ''a'')"]
  note e5 = E [THEN conjunct2, THEN conjunct2, THEN conjunct2, THEN conjunct2, THEN conjunct1]
  note e6 = E [THEN conjunct2, THEN conjunct2, THEN conjunct2, THEN conjunct2, THEN conjunct2,
      THEN conjunct1]
  note t7 = T [THEN conjunct2, THEN conjunct2, THEN conjunct2, THEN conjunct2, THEN conjunct2,
      THEN conjunct2, THEN conjunct1]
  note t8 = T [THEN conjunct2, THEN conjunct2, THEN conjunct2, THEN conjunct2, THEN conjunct2,
      THEN conjunct2, THEN conjunct2, THEN conjunct1]
  note t9 = T [THEN conjunct2, THEN conjunct2, THEN conjunct2, THEN conjunct2, THEN conjunct2,
      THEN conjunct2, THEN conjunct2, THEN conjunct2, THEN conjunct1]
  note t10 = T [THEN conjunct2, THEN conjunct2, THEN conjunct2, THEN conjunct2, THEN conjunct2,
      THEN conjunct2, THEN conjunct2, THEN conjunct2, THEN conjunct2, THEN conjunct1]
  have r: "fst (chatBot replying_world demo_config demo_catalog (chat (js ''a'')) Map.empty) =
     ChatReply (js ''ok'') (js ''default'')"
    by (simp add: chatBot_replying_world)
  have h: "fst (getConversationHistory (js ''default'')
     (snd (chatBot replying_world demo_config demo_catalog (chat (js ''b''))
       (snd (chatBot replying_world demo_config demo_catalog (chat (js ''a'')) Map.empty))))) =
     [\<lparr>role = js ''user'', content = js ''a'', timestamp = js ''t1''\<rparr>,
      \<lparr>role = js ''assistant'', content = js ''ok'', timestamp = js ''t2''\<rparr>,
      \<lparr>role = js ''user'', content = js ''b'', timestamp = js ''t1''\<rparr>,
      \<lparr>role = js ''assistant'', content = js ''ok'', timestamp = js ''t2''\<rparr>]"
    using e5 unfolding chat_def [symmetric]
    by (simp add: chatBot_replying_world user_turn_def t get_fst keep_last_10_def)
  have f: "snd (chatBot replying_world demo_config demo_catalog (chat (js ''b''))
     (snd (chatBot replying_world demo_config demo_catalog (chat (js ''a'')) Map.empty)))
     (js ''other'') = None"
    using e6 [rule_format, OF n] unfolding chat_def [symmetric] by simp
  have c1: "fst (clearConversation JUndefined two_conversations) =
     ClearReply (js ''Conversation history cleared for ID: default'') (js ''default'')"
    by (simp only: t7 fst_conv)
  have c2: "snd (clearConversation JUndefined two_conversations) (js ''default'') = None"
    by (rule t8)
  have c3: "snd (clearConversation JUndefined two_conversations) (js ''other'') = Some [demo_turn 0]"
    using t9 [rule_format, OF n] o by simp
  have g: "getConversationHistory_endpoint JUndefined two_conversations =
     (HistoryReply (js ''default'')
        [\<lparr>role = js ''user'', content = js ''a'', timestamp = js ''t1''\<rparr>,
         \<lparr>role = js ''assistant'', content = js ''ok'', timestamp = js ''t2''\<rparr>] 2,
      two_conversations)"
    by (simp add: t10 get_fst d)
  show ?thesis
    by (intro conjI) (fact n f h r c1 d c2 c3 g)+
qed

text \<open>
  C10. A request whose \<open>conversationId\<close> is the empty string is coerced to
  \<open>default\<close>: the chat, clear and history handlers give the same reply and the same
  store as for a request that omits the field.
\<close>

theorem empty_id_uses_default:
  "or_default (JStr []) = js ''default'' \<and>
   or_default (JStr []) = or_default JUndefined \<and>
   chatBot w cfg cat (req\<lparr>conversationId := JStr []\<rparr>) s =
     chatBot w cfg cat (req\<lparr>conversationId := JUndefined\<rparr>) s \<and>
   clearConversation (JStr []) s = clearConversation JUndefined s \<and>
   getConversationHistory_endpoint (JStr []) s = getConversationHistory_endpoint JUndefined s"
proof -
  have c: "chatBot w cfg cat (req\<lparr>conversationId := JStr []\<rparr>) s =
           chatBot w cfg cat (req\<lparr>conversationId := JUndefined\<rparr>) s"
    by (rule chatBot_field) (simp only: or_default_simps)
  have e: "clearConversation (JStr []) s = clearConversation JUndefined s"
    unfolding clearConversation_def by (simp only: or_default_simps)
  have g: "getConversationHistory_endpoint (JStr []) s = getConversationHistory_endpoint JUndefined s"
    unfolding getConversationHistory_endpoint_def by (simp only: or_default_simps)
  show ?thesis using c e g by (simp only: or_default_simps simp_thms)
qed

theorem empty_id_uses_default_witness:
  "clearConversation (JStr []) store_after_failure =
     (ClearReply (js ''Conversation history cleared for ID: default'') (js ''default''),
      Map.empty) \<and>
   getConversationHistory_endpoint (JStr []) store_after_failure =
     (HistoryReply (js ''default'')
        [\<lparr>role = js ''user'', content = js ''a'', timestamp = js ''t1''\<rparr>] 1,
      store_after_failure)"
proof -
  have c: "clearConversation JUndefined store_after_failure =
     (ClearReply (js ''Conversation history cleared for ID: default'') (js ''default''),
      Map.empty)"
    by (simp add: clearConversation_def clearConversationHistory_def Map_delete_def
          store_after_failure_eq Let_def js_def)
  have g: "getConversationHistory_endpoint JUndefined store_after_failure =
     (HistoryReply (js ''default'')
        [\<lparr>role = js ''user'', content = js ''a'', timestamp = js ''t1''\<rparr>] 1,
      store_after_failure)"
    by (simp add: getConversationHistory_endpoint_def getConversationHistory_def Map_get_def
          store_after_failure_eq Let_def)
  show ?thesis
    using c g empty_id_uses_default [where s = store_after_failure and w = replying_world
        and cfg = demo_config and cat = demo_catalog and req = "chat (js ''a'')"]
    by simp
qed

section \<open>What the prompt contains\<close>

lemma sublist_join: "x \<in> set xs \<Longrightarrow> sublist x (join sep xs)"
proof (induction sep xs rule: join.induct)
  case (1 sep)
  then show ?case by simp
next
  case (2 sep y)
  then show ?case by simp
next
  case (3 sep y z zs)
  show ?case
  proof (cases "x = y")
    case True
    then show ?thesis by simp
  next
    case False
    with 3 have "sublist x (join sep (z # zs))" by simp
    then obtain ps ss where "join sep (z # zs) = ps @ x @ ss"
      by (auto simp: sublist_def)
    then have "join sep (y # z # zs) = (y @ sep @ ps) @ x @ ss" by simp
    then show ?thesis unfolding sublist_def by blast
  qed
qed

lemma sublist_trans: "sublist xs ys \<Longrightarrow> sublist ys zs \<Longrightarrow> sublist xs zs"
  by (rule sublist_order.order.trans)

lemma prompt_contains_schemas:
  "sublist (allSchemasString cfg cat) (fst (buildPrompt cfg cat q k s))"
  unfolding buildPrompt_fst by (rule sublist_appendI)

lemma prompt_contains_context:
  "sublist (conversationContext (fst (getConversationHistory k s)))
     (fst (buildPrompt cfg cat q k s))"
proof -
  have "fst (buildPrompt cfg cat q k s) =
          (prompt_head @ allSchemasString cfg cat @ prompt_gap) @
          conversationContext (fst (getConversationHistory k s)) @
          (prompt_rules_and_examples @ q @ prompt_tail)"
    by (simp add: buildPrompt_fst)
  then show ?thesis by (simp only: sublist_appendI)
qed

lemma context_contains_lines:
  "h \<noteq> [] \<Longrightarrow> sublist (join (js ''\<newline>'') (map turn_line h)) (conversationContext h)"
  by (simp add: conversationContext_def)

lemma turn_line_eq:
  "turn_line = (\<lambda>msg. (if role msg = js ''user'' then js ''User'' else js ''Assistant'') @
                  js '': '' @ content msg)"
  by (rule ext) (simp add: turn_line_def speaker_def)

lemma prompt_contains_lines:
  "fst (getConversationHistory k s) \<noteq> [] \<Longrightarrow>
   sublist (join (js ''\<newline>'') (map turn_line (fst (getConversationHistory k s))))
     (fst (buildPrompt cfg cat q k s))"
  using context_contains_lines prompt_contains_context by (rule sublist_trans)

lemma table_block_contains:
  "sublist (js ''Table: `'' @ PROJECT_ID cfg @ js ''.'' @ datasetName t @ js ''.'' @ tableName t @
            js ''`\<newline>\<newline>    Table schema:\<newline>    '' @
            join (js ''\<newline>    '')
              (map (\<lambda>col. js ''*   '' @ name col @ js '' ('' @ type col @ js '')'') (schema t)))
     (table_block cfg t)"
proof -
  have c: "column_line = (\<lambda>col. js ''*   '' @ name col @ js '' ('' @ type col @ js '')'')"
    by (rule ext) (simp add: column_line_def)
  have "table_block cfg t =
      js ''\<newline>    '' @
      (js ''Table: `'' @ PROJECT_ID cfg @ js ''.'' @ datasetName t @ js ''.'' @ tableName t @
            js ''`\<newline>\<newline>    Table schema:\<newline>    '' @
            join (js ''\<newline>    '')
              (map (\<lambda>col. js ''*   '' @ name col @ js '' ('' @ type col @ js '')'') (schema t))) @
      js ''\<newline>    ''"
    unfolding table_block_def qualified_name_def schemaString_def c
    by (simp add: js_def)
  then show ?thesis by (simp only: sublist_appendI)
qed

lemma prompt_contains_table:
  assumes "t \<in> set cat"
  shows "sublist (table_block cfg t) (fst (buildPrompt cfg cat q k s))"
proof -
  from assms have "table_block cfg t \<in> set (map (table_block cfg) cat)" by simp
  then have "sublist (table_block cfg t) (allSchemasString cfg cat)"
    unfolding allSchemasString_def by (rule sublist_join)
  then show ?thesis using prompt_contains_schemas by (rule sublist_trans)
qed

lemma alternating_speaker:
  "alternating (map speaker h) = alternating (map (\<lambda>msg. role msg = js ''user'') h)"
  by (induction h rule: alternating.induct) (auto simp: speaker_def js_def)

lemma store_of_next_prompt_eq:
  "store_of_next_prompt =
     [js ''default'' \<mapsto> [\<lparr>role = js ''user'', content = js ''a'', timestamp = js ''t1''\<rparr>,
                          \<lparr>role = js ''user'', content = js ''b'', timestamp = js ''t1''\<rparr>]]"
  by (simp add: store_of_next_prompt_def store_after_failure_eq)
     (simp add: addToConversationHistory_def Map_has_def Map_set_def Map_get_def keep_last_10_def)

text \<open>
  C7, as stated, fails in its second half: the lines follow the roles of the stored turns
  and nothing makes the roles alternate. After a chat request that failed at the
  warehouse, the prompt of the next request renders two user turns in a row as
  \<open>User: a\<close> and \<open>User: b\<close>.
\<close>

theorem prompt_lines_not_alternating_counterexample:
  "fst (getConversationHistory (js ''default'') store_of_next_prompt) =
     [\<lparr>role = js ''user'', content = js ''a'', timestamp = js ''t1''\<rparr>,
      \<lparr>role = js ''user'', content = js ''b'', timestamp = js ''t1''\<rparr>] \<and>
   \<not> alternating (map speaker (fst (getConversationHistory (js ''default'') store_of_next_prompt))) \<and>
   sublist (js ''User: a\<newline>User: b'')
     (fst (buildPrompt demo_config demo_catalog (js ''b'') (js ''default'') store_of_next_prompt))"
proof -
  let ?h = "fst (getConversationHistory (js ''default'') store_of_next_prompt)"
  have h: "?h = [\<lparr>role = js ''user'', content = js ''a'', timestamp = js ''t1''\<rparr>,
                 \<lparr>role = js ''user'', content = js ''b'', timestamp = js ''t1''\<rparr>]"
    by (simp add: get_fst store_of_next_prompt_eq)
  have n: "\<not> alternating (map speaker ?h)"
    by (simp add: h speaker_def)
  have j: "join (js ''\<newline>'') (map turn_line ?h) = js ''User: a\<newline>User: b''"
    by (simp only: h) (simp add: turn_line_def speaker_def js_def)
  have "?h \<noteq> []" by (simp add: h)
  from prompt_contains_lines [OF this, of demo_config demo_catalog "js ''b''"]
  have "sublist (js ''User: a\<newline>User: b'')
     (fst (buildPrompt demo_config demo_catalog (js ''b'') (js ''default'') store_of_next_prompt))"
    by (simp only: j)
  with h n show ?thesis by simp
qed

text \<open>
  C7, amended. For every table of the catalog the prompt contains \<open>Table:\<close>, the
  name \<open>project.dataset.table\<close> between backquotes, and under
  \<open>Table schema:\<close> one line \<open>*   name (type)\<close> per column, in order. When
  the history is not empty the prompt contains one line per turn, in the order of the
  history, separated by line feeds: \<open>User: \<close> and the content when the role of the
  turn is \<open>user\<close>, \<open>Assistant: \<close> and the content otherwise. The labels
  alternate exactly when neighbouring turns differ in being user turns.
\<close>

theorem prompt_renders_catalog_and_history:
  "(t \<in> set cat \<longrightarrow>
      sublist (js ''Table: `'' @ PROJECT_ID cfg @ js ''.'' @ datasetName t @ js ''.'' @
               tableName t @ js ''`\<newline>\<newline>    Table schema:\<newline>    '' @
               join (js ''\<newline>    '')
                 (map (\<lambda>col. js ''*   '' @ name col @ js '' ('' @ type col @ js '')'')
                    (schema t)))
        (fst (buildPrompt cfg cat q k s))) \<and>
   (fst (getConversationHistory k s) \<noteq> [] \<longrightarrow>
      sublist (join (js ''\<newline>'')
                 (map (\<lambda>msg. (if role msg = js ''user'' then js ''User'' else js ''Assistant'') @
                             js '': '' @ content msg)
                    (fst (getConversationHistory k s))))
        (fst (buildPrompt cfg cat q k s))) \<and>
   alternating (map speaker h) = alternating (map (\<lambda>msg. role msg = js ''user'') h)"
proof -
  have a: "t \<in> set cat \<Longrightarrow>
      sublist (js ''Table: `'' @ PROJECT_ID cfg @ js ''.'' @ datasetName t @ js ''.'' @
               tableName t @ js ''`\<newline>\<newline>    Table schema:\<newline>    '' @
               join (js ''\<newline>    '')
                 (map (\<lambda>col. js ''*   '' @ name col @ js '' ('' @ type col @ js '')'')
                    (schema t)))
        (fst (buildPrompt cfg cat q k s))"
    using table_block_contains prompt_contains_table by (rule sublist_trans)
  have b: "fst (getConversationHistory k s) \<noteq> [] \<Longrightarrow>
      sublist (join (js ''\<newline>'')
                 (map (\<lambda>msg. (if role msg = js ''user'' then js ''User'' else js ''Assistant'') @
                             js '': '' @ content msg)
                    (fst (getConversationHistory k s))))
        (fst (buildPrompt cfg cat q k s))"
  proof -
    assume ne: "fst (getConversationHistory k s) \<noteq> []"
    show ?thesis
      using prompt_contains_lines [OF ne, of cfg cat q] unfolding turn_line_eq .
  qed
  show ?thesis using a b alternating_speaker [of h] by blast
qed

theorem prompt_renders_catalog_and_history_witness:
  "sales_table \<in> set demo_catalog \<and>
   fst (getConversationHistory (js ''default'') store_after_reply) \<noteq> [] \<and>
   sublist (js ''Table: `p.d.sales`\<newline>\<newline>    Table schema:\<newline>    *   region (STRING)\<newline>    *   total (INT64)'')
     (fst (buildPrompt demo_config demo_catalog (js ''q'') (js ''default'') store_after_reply)) \<and>
   sublist (js ''User: a\<newline>Assistant: ok'')
     (fst (buildPrompt demo_config demo_catalog (js ''q'') (js ''default'') store_after_reply))"
proof -
  let ?h = "fst (getConversationHistory (js ''default'') store_after_reply)"
  have h: "?h = [\<lparr>role = js ''user'', content = js ''a'', timestamp = js ''t1''\<rparr>,
                 \<lparr>role = js ''assistant'', content = js ''ok'', timestamp = js ''t2''\<rparr>]"
    by (simp add: get_fst store_after_reply_eq)
  have m: "sales_table \<in> set demo_catalog" by (simp add: demo_catalog_def)
  have a: "js ''Table: `'' @ PROJECT_ID demo_config @ js ''.'' @ datasetName sales_table @
           js ''.'' @ tableName sales_table @
           js ''`\<newline>\<newline>    Table schema:\<newline>    '' @
           join (js ''\<newline>    '')
             (map (\<lambda>col. js ''*   '' @ name col @ js '' ('' @ type col @ js '')'')
                (schema sales_table)) =
           js ''Table: `p.d.sales`\<newline>\<newline>    Table schema:\<newline>    *   region (STRING)\<newline>    *   total (INT64)''"
    by (simp add: demo_config_def sales_table_def js_def)
  have b: "join (js ''\<newline>'')
             (map (\<lambda>msg. (if role msg = js ''user'' then js ''User'' else js ''Assistant'') @
                         js '': '' @ content msg) ?h) =
           js ''User: a\<newline>Assistant: ok''"
    by (simp only: h) (simp add: js_def)
  show ?thesis
    using m prompt_renders_catalog_and_history [of sales_table demo_catalog demo_config
        "js ''q''" "js ''default''" store_after_reply "[]"]
    unfolding a b by (simp add: h)
qed

end
